theory Spec2Isabelle
  imports Main "HOL-Library.Multiset" "HOL-Library.Sublist"
begin

section \<open>Strings\<close>

text \<open>
  Python strings are modelled as \<open>string\<close>. The only case conversion the program performs is
  \<open>level.lower() == "must have"\<close>. \<open>str_lower\<close> lowers the ASCII letters \<open>A\<close> .. \<open>Z\<close> and
  leaves every other character alone. Python's \<open>str.lower\<close> also rewrites non-ASCII letters,
  but it never maps one to a character of \<open>"must have"\<close>, so the comparison with that literal is
  the same in both.
\<close>

definition ascii_uppercase :: string where
  "ascii_uppercase = ''ABCDEFGHIJKLMNOPQRSTUVWXYZ''"

definition ascii_lowercase :: string where
  "ascii_lowercase = ''abcdefghijklmnopqrstuvwxyz''"

definition char_lower :: "char \<Rightarrow> char" where
  "char_lower c =
     (case map_of (zip ascii_uppercase ascii_lowercase) c of Some l \<Rightarrow> l | None \<Rightarrow> c)"

definition str_lower :: "string \<Rightarrow> string" where
  "str_lower s = map char_lower s"

text \<open>\<open>sep.join(xs)\<close>.\<close>

fun str_join :: "string \<Rightarrow> string list \<Rightarrow> string" where
  "str_join sep [] = []"
| "str_join sep [x] = x"
| "str_join sep (x # y # ys) = x @ sep @ str_join sep (y # ys)"




section \<open>Paths and files\<close>

text \<open>
  \<open>os.path\<close> on a POSIX system. \<open>rfind\<close> is \<open>str.rfind\<close> for a single character, with
  \<open>-1\<close> when the character does not occur.
\<close>

definition rfind :: "char \<Rightarrow> string \<Rightarrow> int" where
  "rfind c s =
     (if c \<in> set s then int (length s) - 1 - int (length (takeWhile (\<lambda>x. x \<noteq> c) (rev s)))
      else - 1)"

definition os_path_basename :: "string \<Rightarrow> string" where
  "os_path_basename p = drop (nat (rfind (CHR ''/'') p + 1)) p"

text \<open>
  \<open>os.path.splitext\<close>: the extension starts at the last dot after the last separator, unless
  only dots stand between the separator and that dot.
\<close>

definition os_path_splitext :: "string \<Rightarrow> string \<times> string" where
  "os_path_splitext p =
     (let sepIndex = rfind (CHR ''/'') p;
          dotIndex = rfind (CHR ''.'') p
      in if dotIndex > sepIndex \<and>
            list_ex (\<lambda>ch. ch \<noteq> CHR ''.'')
              (take (nat (dotIndex - (sepIndex + 1))) (drop (nat (sepIndex + 1)) p))
         then (take (nat dotIndex) p, drop (nat dotIndex) p)
         else (p, []))"


text \<open>
  The file system as the program sees it: a path is absent, a directory, or a readable text
  file, given by the rows that \<open>csv.reader\<close> yields for it (each row a list of fields).
\<close>

datatype fs_node = Directory | RegularFile "string list list"

type_synonym file_system = "string \<rightharpoonup> fs_node"


datatype error = FileNotFoundError | IsADirectoryError | StopIteration

text \<open>What the program prints, one constructor for each \<open>print\<close> of \<open>CriteriaStore\<close>.\<close>

datatype message =
    SkippingMalformedRow "string list"
  | IsTheCsvFile string
  | CriteriaFileFound string
  | NoCriteriaFileFound string


section \<open>Criterion\<close>

text \<open>
  \<open>attributes\<close> is a Python set of \<open>(moscow, attribute)\<close> tuples. It is kept as a list without
  repetitions; the order of the list stands for the order in which the set happens to be
  iterated, which Python leaves open. Statements about a criterion therefore either hold for
  every list or speak about \<open>set (attributes c)\<close>.
\<close>

record Criterion =
  description :: string
  level :: string
  attributes :: "(string \<times> string) list"

definition Criterion_init :: "string \<Rightarrow> string \<Rightarrow> Criterion" where
  "Criterion_init d l = \<lparr>description = d, level = l, attributes = []\<rparr>"

definition add_attribute :: "Criterion \<Rightarrow> string \<Rightarrow> string \<Rightarrow> Criterion" where
  "add_attribute c moscow attribute =
     c\<lparr>attributes := List.insert (moscow, attribute) (attributes c)\<rparr>"

type_synonym criterion_dict = "string \<times> string \<times> (string \<times> string) list"

definition to_dict :: "Criterion \<Rightarrow> criterion_dict" where
  "to_dict c = (description c, level c, attributes c)"


section \<open>CriteriaStore\<close>

text \<open>
  \<open>self.criteria\<close> is a \<open>defaultdict(set)\<close> from research method to a set of \<open>Criterion\<close>
  objects. \<open>Criterion\<close> defines neither \<open>__eq__\<close> nor \<open>__hash__\<close>, so the set holds objects by
  identity: it is a list here, one element for each object, again in an order that stands for
  the iteration order of the set.
\<close>

type_synonym CriteriaStore = "string \<rightharpoonup> Criterion list"

definition CriteriaStore_init :: CriteriaStore where
  "CriteriaStore_init = Map.empty"

text \<open>
  The two ways the program reads the dictionary. \<open>self.criteria[k]\<close> calls the default
  factory for a missing key and stores the fresh empty set; \<open>self.criteria.get(k, d)\<close> never
  does. Both return the dictionary as it is after the access.
\<close>

definition defaultdict_getitem :: "CriteriaStore \<Rightarrow> string \<Rightarrow> Criterion list \<times> CriteriaStore" where
  "defaultdict_getitem self k =
     (case self k of Some v \<Rightarrow> (v, self) | None \<Rightarrow> ([], self(k \<mapsto> [])))"

definition dict_get :: "CriteriaStore \<Rightarrow> string \<Rightarrow> Criterion list \<Rightarrow> Criterion list \<times> CriteriaStore" where
  "dict_get self k d = (case self k of Some v \<Rightarrow> (v, self) | None \<Rightarrow> (d, self))"

text \<open>
  Mutating, in place, the object that \<open>next(c for c in cs if P c)\<close> returned: the first
  element of the iteration that satisfies \<open>P\<close>.
\<close>

fun mutate_first :: "('a \<Rightarrow> bool) \<Rightarrow> ('a \<Rightarrow> 'a) \<Rightarrow> 'a list \<Rightarrow> 'a list" where
  "mutate_first P f [] = []"
| "mutate_first P f (x # xs) = (if P x then f x # xs else x # mutate_first P f xs)"

definition add_criterion ::
  "CriteriaStore \<Rightarrow> string \<Rightarrow> string \<Rightarrow> string \<Rightarrow> string \<Rightarrow> string \<Rightarrow> CriteriaStore" where
  "add_criterion self research_method d l moscow attribute =
     (case defaultdict_getitem self research_method of (criteria_set, self1) \<Rightarrow>
        (case find (\<lambda>c. description c = d) criteria_set of
           Some existing_criterion \<Rightarrow>
             self1(research_method \<mapsto>
               mutate_first (\<lambda>c. description c = d) (\<lambda>c. add_attribute c moscow attribute)
                 criteria_set)
         | None \<Rightarrow>
             (let new_criterion = add_attribute (Criterion_init d l) moscow attribute
              in case defaultdict_getitem self1 research_method of (criteria_set2, self2) \<Rightarrow>
                   self2(research_method \<mapsto> criteria_set2 @ [new_criterion]))))"

text \<open>The body of the loop over the rows of the reader, on the store and the printed output.\<close>

definition load_row ::
  "string \<Rightarrow> string list \<Rightarrow> CriteriaStore \<times> message list \<Rightarrow> CriteriaStore \<times> message list" where
  "load_row research_method row st =
     (case st of (self, out) \<Rightarrow>
        if length row \<noteq> 4 then (self, out @ [SkippingMalformedRow row])
        else (add_criterion self research_method (row ! 0) (row ! 1) (row ! 2) (row ! 3), out))"

text \<open>
  \<open>load_from_csv\<close>: \<open>open\<close> fails on a missing path or a directory, \<open>next(reader)\<close> raises
  \<open>StopIteration\<close> on a file without a single row; all of these happen before the store is
  touched.
\<close>

definition load_from_csv ::
  "file_system \<Rightarrow> CriteriaStore \<Rightarrow> string \<Rightarrow> error + CriteriaStore \<times> message list" where
  "load_from_csv fs self file_path =
     (let research_method = fst (os_path_splitext (os_path_basename file_path))
      in case fs file_path of
           None \<Rightarrow> Inl FileNotFoundError
         | Some Directory \<Rightarrow> Inl IsADirectoryError
         | Some (RegularFile rows) \<Rightarrow>
             (case rows of
                [] \<Rightarrow> Inl StopIteration
              | header # rest \<Rightarrow> Inr (fold (load_row research_method) rest (self, []))))"

definition get_criteria_for_method ::
  "CriteriaStore \<Rightarrow> string \<Rightarrow> criterion_dict list \<times> CriteriaStore" where
  "get_criteria_for_method self research_method =
     (case dict_get self research_method [] of (cs, self1) \<Rightarrow> (map to_dict cs, self1))"


text \<open>The two groups of attribute texts that the prompt lists.\<close>

definition must_have :: "Criterion \<Rightarrow> string list" where
  "must_have c = [attr. (lvl, attr) \<leftarrow> attributes c, str_lower lvl = ''must have'']"

definition other_criteria :: "Criterion \<Rightarrow> string list" where
  "other_criteria c = [attr. (lvl, attr) \<leftarrow> attributes c, str_lower lvl \<noteq> ''must have'']"

definition generate_prompt_for_criterion ::
  "CriteriaStore \<Rightarrow> string \<Rightarrow> string \<Rightarrow> string \<times> CriteriaStore" where
  "generate_prompt_for_criterion self research_method criterion_description =
     (case dict_get self research_method [] of (criteria_set, self1) \<Rightarrow>
        (case find (\<lambda>c. description c = criterion_description) criteria_set of
           None \<Rightarrow>
             (''No criterion found for '' @ criterion_description @ '' under '' @
                research_method @ ''.'', self1)
         | Some selected_criterion \<Rightarrow>
             (let prompt1 = ''Please check if the article meets the following criterion:\<newline>'' @
                    criterion_description @ ''\<newline>\<newline>'';
                  prompt2 = prompt1 @ ''It must at least meet the following Must Have criteria:\<newline>'';
                  prompt3 =
                    (if must_have selected_criterion \<noteq> [] then
                       prompt2 @ str_join ''\<newline>'' (map (\<lambda>c. ''- '' @ c) (must_have selected_criterion)) @
                         ''\<newline>''
                     else prompt2 @ ''- No explicitly defined 'Must Have' criteria.\<newline>'');
                  prompt4 =
                    (if other_criteria selected_criterion \<noteq> [] then
                       prompt3 @
                         ''\<newline>If one of these is missing, it can be replaced by at least two of the following:\<newline>'' @
                         str_join ''\<newline>'' (map (\<lambda>c. ''- '' @ c) (other_criteria selected_criterion))
                     else prompt3)
              in (prompt4 @
                    ''\<newline>\<newline>Please return only the following: Yes or No, depending on the outcome.'',
                  self1))))"


section \<open>Observations on a store\<close>

text \<open>The criteria held for a method, as \<open>self.criteria.get(m, [])\<close> yields them.\<close>

definition criteria_of :: "CriteriaStore \<Rightarrow> string \<Rightarrow> Criterion list" where
  "criteria_of self m = fst (dict_get self m [])"

text \<open>
  What can be observed of a method's criteria without depending on an iteration order: the
  set of (description, level, attribute set) triples, and the same without the levels.
\<close>

definition contents :: "CriteriaStore \<Rightarrow> string \<Rightarrow> (string \<times> string \<times> (string \<times> string) set) set" where
  "contents self m = (\<lambda>c. (description c, level c, set (attributes c))) ` set (criteria_of self m)"


text \<open>The invariant of the data model: at most one criterion for a description.\<close>

definition unique_descriptions :: "CriteriaStore \<Rightarrow> string \<Rightarrow> bool" where
  "unique_descriptions self m = distinct (map description (criteria_of self m))"


text \<open>A sequence of queries, each passing on the store it leaves behind.\<close>

datatype query = GetCriteria string | GeneratePrompt string string

definition run_query :: "query \<Rightarrow> CriteriaStore \<Rightarrow> CriteriaStore" where
  "run_query q self =
     (case q of
        GetCriteria m \<Rightarrow> snd (get_criteria_for_method self m)
      | GeneratePrompt m d \<Rightarrow> snd (generate_prompt_for_criterion self m d))"


section \<open>An abstract view of loading\<close>

text \<open>
  What a lookup by description finds under a method: the level (seen through \<open>g\<close>) and the
  attribute set of the first criterion with that description. \<open>view_add\<close> is the effect of
  \<open>add_criterion\<close> on that view, \<open>add_row\<close> and \<open>view_row\<close> the effect of one row of four
  fields on the store and on the view.
\<close>

definition view ::
  "(string \<Rightarrow> 'a) \<Rightarrow> CriteriaStore \<Rightarrow> string \<Rightarrow> string \<Rightarrow> ('a \<times> (string \<times> string) set) option" where
  "view g self m d =
     map_option (\<lambda>c. (g (level c), set (attributes c)))
       (find (\<lambda>c. description c = d) (criteria_of self m))"

definition view_add ::
  "(string \<Rightarrow> 'a) \<Rightarrow> string \<Rightarrow> string \<Rightarrow> string \<Rightarrow> string \<Rightarrow> string \<Rightarrow>
     (string \<Rightarrow> string \<Rightarrow> ('a \<times> (string \<times> string) set) option) \<Rightarrow>
     (string \<Rightarrow> string \<Rightarrow> ('a \<times> (string \<times> string) set) option)" where
  "view_add g m d l moscow attribute V =
     V(m := (V m)(d \<mapsto>
       (case V m d of
          None \<Rightarrow> (g l, {(moscow, attribute)})
        | Some (l0, A) \<Rightarrow> (l0, insert (moscow, attribute) A))))"

definition add_row :: "string \<Rightarrow> string list \<Rightarrow> CriteriaStore \<Rightarrow> CriteriaStore" where
  "add_row m row self = add_criterion self m (row ! 0) (row ! 1) (row ! 2) (row ! 3)"



section \<open>Loading, stated on rows\<close>

text \<open>The research method that \<open>load_from_csv\<close> derives from a path.\<close>

definition method_of_path :: "string \<Rightarrow> string" where
  "method_of_path file_path = fst (os_path_splitext (os_path_basename file_path))"

text \<open>
  The first criterion with the description, under the method, holds the pair
  \<open>(moscow, attribute)\<close>.
\<close>

definition holds_attribute :: "CriteriaStore \<Rightarrow> string \<Rightarrow> string \<Rightarrow> string \<Rightarrow> string \<Rightarrow> bool" where
  "holds_attribute self m d moscow attribute =
     (case find (\<lambda>c. description c = d) (criteria_of self m) of
        Some c \<Rightarrow> (moscow, attribute) \<in> set (attributes c)
      | None \<Rightarrow> False)"


section \<open>Sample inputs\<close>

text \<open>
  A criteria file for the method ``Experiments'' with two rows of the wrong arity between
  rows of four fields; two rows that share a description and differ in the level; three rows
  whose levels agree; and the store that the first file leaves behind.
\<close>

definition example_rows :: "string list list" where
  "example_rows =
     [[''Randomization'', ''High'', ''Must Have'', ''random assignment used''],
      [''Randomization'', ''Low'', ''Could Have''],
      [''Randomization'', ''Low'', ''Could Have'', ''blinding applied''],
      [''Sample'', ''Low'', ''Should Have'', ''sample size justified'', ''extra''],
      [''Sample'', ''Low'', ''Should Have'', ''sample size justified'']]"

definition example_fs :: file_system where
  "example_fs =
     [''csv/Experiments.csv'' \<mapsto>
        RegularFile ([''description'', ''level'', ''moscow'', ''attribute''] # example_rows)]"

definition order_rows :: "string list list" where
  "order_rows =
     [[''Randomization'', ''High'', ''Must Have'', ''random assignment used''],
      [''Randomization'', ''Low'', ''Could Have'', ''blinding applied'']]"

definition order_fs :: "string list list \<Rightarrow> file_system" where
  "order_fs rows =
     [''csv/Experiments.csv'' \<mapsto>
        RegularFile ([''description'', ''level'', ''moscow'', ''attribute''] # rows)]"


definition example_store :: CriteriaStore where
  "example_store =
     [''Experiments'' \<mapsto>
        [\<lparr>description = ''Randomization'', level = ''High'',
           attributes = [(''Could Have'', ''blinding applied''),
                         (''Must Have'', ''random assignment used'')]\<rparr>,
         \<lparr>description = ''Sample'', level = ''Low'',
           attributes = [(''Should Have'', ''sample size justified'')]\<rparr>]]"


section \<open>The criteria file of a method\<close>




section \<open>The parts of a prompt\<close>

text \<open>
  The lines for the Must-Have group and the paragraph for the other group, as they stand in
  the prompt; rows and a criterion in which one attribute text occurs under two priorities;
  a store with a criterion without attributes and one with three.
\<close>

definition must_have_block :: "Criterion \<Rightarrow> string" where
  "must_have_block c =
     (if must_have c = [] then ''- No explicitly defined 'Must Have' criteria.\<newline>''
      else concat (map (\<lambda>a. ''- '' @ a @ ''\<newline>'') (must_have c)))"

definition other_criteria_block :: "Criterion \<Rightarrow> string" where
  "other_criteria_block c =
     (if other_criteria c = [] then []
      else ''\<newline>If one of these is missing, it can be replaced by at least two of the following:\<newline>'' @
             str_join ''\<newline>'' (map (\<lambda>a. ''- '' @ a) (other_criteria c)))"

definition shared_text_rows :: "string list list" where
  "shared_text_rows =
     [[''Randomization'', ''High'', ''Could Have'', ''uses randomization''],
      [''Randomization'', ''High'', ''Must Have'', ''uses randomization'']]"

definition prompt_store :: CriteriaStore where
  "prompt_store =
     [''Experiments'' \<mapsto>
        [\<lparr>description = ''Sample'', level = ''Low'', attributes = []\<rparr>,
         \<lparr>description = ''Randomization'', level = ''High'',
           attributes = [(''Should Have'', ''B has control group''),
                         (''MUST HAVE'', ''A uses randomization''),
                         (''Could Have'', ''C reports effect size'')]\<rparr>]]"

definition shared_text_criterion :: Criterion where
  "shared_text_criterion =
     \<lparr>description = ''Randomization'', level = ''High'',
      attributes = [(''Must Have'', ''uses randomization''), (''Could Have'', ''uses randomization'')]\<rparr>"


section \<open>Reading the dictionary\<close>

lemma dict_get_store: "snd (dict_get self k d) = self"
  by (simp add: dict_get_def split: option.split)

lemma dict_get_criteria_of: "dict_get self k [] = (criteria_of self k, self)"
  by (simp add: criteria_of_def dict_get_def split: option.split)

lemma defaultdict_getitem_missing:
  "self k = None \<Longrightarrow> dom (snd (defaultdict_getitem self k)) = insert k (dom self)"
  by (simp add: defaultdict_getitem_def)

lemma get_criteria_store: "snd (get_criteria_for_method self m) = self"
  by (simp add: get_criteria_for_method_def dict_get_criteria_of)

lemma generate_prompt_store: "snd (generate_prompt_for_criterion self m d) = self"
  by (simp add: generate_prompt_for_criterion_def dict_get_criteria_of Let_def split: option.split)

lemma run_query_store: "run_query q self = self"
  by (cases q) (simp_all add: run_query_def get_criteria_store generate_prompt_store)

lemma fold_run_query: "fold run_query qs self = self"
  by (induction qs) (simp_all add: run_query_store)

text \<open>
  C10. \<open>get_criteria_for_method\<close> and \<open>generate_prompt_for_criterion\<close> read the dictionary
  with \<open>get\<close> only, so each leaves the store as it was, and so does every sequence of such
  queries: no key is added (compare \<open>defaultdict_getitem_missing\<close>) and no criteria set changes.
\<close>

theorem queries_do_not_mutate:
  "snd (get_criteria_for_method self m) = self \<and>
   snd (generate_prompt_for_criterion self m d) = self \<and>
   fold run_query qs self = self \<and>
   dom (fold run_query qs self) = dom self"
  by (simp add: get_criteria_store generate_prompt_store fold_run_query)

text \<open>
  C8. For a method under which nothing has been loaded, \<open>get_criteria_for_method\<close> returns
  the empty list; it has no error result.
\<close>

theorem get_criteria_unknown_method:
  "self m = None \<Longrightarrow> get_criteria_for_method self m = ([], self)"
  by (simp add: get_criteria_for_method_def dict_get_def)

theorem get_criteria_unknown_method_witness:
  "CriteriaStore_init ''NoSuchMethod'' = None \<and>
   get_criteria_for_method CriteriaStore_init ''NoSuchMethod'' = ([], CriteriaStore_init)"
  using get_criteria_unknown_method [of CriteriaStore_init "''NoSuchMethod''"]
  by (simp add: CriteriaStore_init_def)


section \<open>The prompt for a missing criterion\<close>

lemma prompt_not_found:
  "find (\<lambda>c. description c = d) (criteria_of self m) = None \<Longrightarrow>
   generate_prompt_for_criterion self m d =
     (''No criterion found for '' @ d @ '' under '' @ m @ ''.'', self)"
  unfolding generate_prompt_for_criterion_def dict_get_criteria_of by simp

text \<open>
  C6. When no criterion under the method has the description, the result is the sentence
  that names the description and the method; the function has no error result.
\<close>

theorem prompt_missing_criterion:
  assumes "\<forall>c \<in> set (criteria_of self m). description c \<noteq> d"
  shows "generate_prompt_for_criterion self m d =
     (''No criterion found for '' @ d @ '' under '' @ m @ ''.'', self)"
proof -
  from assms have "find (\<lambda>c. description c = d) (criteria_of self m) = None"
    by (simp add: find_None_iff)
  then show ?thesis by (rule prompt_not_found)
qed

theorem prompt_missing_criterion_witness:
  "criteria_of CriteriaStore_init ''Experiments'' = [] \<and>
   generate_prompt_for_criterion CriteriaStore_init ''Experiments'' ''Randomization'' =
     (''No criterion found for Randomization under Experiments.'', CriteriaStore_init)"
  using prompt_missing_criterion [of CriteriaStore_init "''Experiments''" "''Randomization''"]
  by (simp add: criteria_of_def dict_get_def CriteriaStore_init_def)


section \<open>Adding a criterion\<close>

lemma criteria_of_Some: "self m = Some cs \<Longrightarrow> criteria_of self m = cs"
  by (simp add: criteria_of_def dict_get_def)

lemma criteria_of_None: "self m = None \<Longrightarrow> criteria_of self m = []"
  by (simp add: criteria_of_def dict_get_def)

lemma criteria_of_upd:
  "criteria_of (self(m \<mapsto> cs)) m' = (if m' = m then cs else criteria_of self m')"
  by (simp add: criteria_of_def dict_get_def split: option.split)

lemma find_app:
  "find P (xs @ ys) = (case find P xs of Some x \<Rightarrow> Some x | None \<Rightarrow> find P ys)"
  by (induction xs) auto

lemma defaultdict_getitem_criteria_of:
  "fst (defaultdict_getitem self m) = criteria_of self m"
  by (simp add: defaultdict_getitem_def criteria_of_def dict_get_def split: option.split)

lemma criteria_of_defaultdict_getitem:
  "criteria_of (snd (defaultdict_getitem self m)) m' = criteria_of self m'"
  by (simp add: defaultdict_getitem_def criteria_of_def dict_get_def split: option.split)

lemma criteria_of_add_criterion:
  "criteria_of (add_criterion self m d l moscow attribute) m' =
     (if m' = m then
        (case find (\<lambda>c. description c = d) (criteria_of self m) of
           Some existing \<Rightarrow>
             mutate_first (\<lambda>c. description c = d) (\<lambda>c. add_attribute c moscow attribute)
               (criteria_of self m)
         | None \<Rightarrow> criteria_of self m @ [add_attribute (Criterion_init d l) moscow attribute])
      else criteria_of self m')"
  by (cases "self m")
    (auto simp add: add_criterion_def defaultdict_getitem_def criteria_of_upd criteria_of_Some
      criteria_of_None Let_def split: option.split)

lemma description_add_attribute [simp]: "description (add_attribute c mo a) = description c"
  by (simp add: add_attribute_def)

lemma level_add_attribute [simp]: "level (add_attribute c mo a) = level c"
  by (simp add: add_attribute_def)

lemma set_attributes_add_attribute [simp]:
  "set (attributes (add_attribute c mo a)) = insert (mo, a) (set (attributes c))"
  by (simp add: add_attribute_def)

lemma find_mutate_first_same:
  "(\<And>x. P (f x) = P x) \<Longrightarrow> find P (mutate_first P f xs) = map_option f (find P xs)"
  by (induction xs) auto

lemma find_mutate_first_other:
  "(\<And>x. Q (f x) = Q x) \<Longrightarrow> (\<And>x. Q x \<Longrightarrow> \<not> P x) \<Longrightarrow>
   find Q (mutate_first P f xs) = find Q xs"
  by (induction xs) auto

lemma map_description_mutate_first:
  "(\<And>x. description (f x) = description x) \<Longrightarrow>
   map description (mutate_first P f xs) = map description xs"
  by (induction xs) auto

lemma view_add_criterion:
  "view g (add_criterion self m d l mo a) = view_add g m d l mo a (view g self)"
proof (intro ext)
  fix m' d'
  show "view g (add_criterion self m d l mo a) m' d' = view_add g m d l mo a (view g self) m' d'"
  proof (cases "m' = m")
    case False
    then show ?thesis by (simp add: view_def view_add_def criteria_of_add_criterion)
  next
    case True
    show ?thesis
    proof (cases "find (\<lambda>c. description c = d) (criteria_of self m)")
      case None
      then have nd: "\<forall>c \<in> set (criteria_of self m). description c \<noteq> d"
        by (simp add: find_None_iff)
      have "find (\<lambda>c. description c = d') (criteria_of self m @ [add_attribute (Criterion_init d l) mo a])
          = (if d' = d then Some (add_attribute (Criterion_init d l) mo a)
             else find (\<lambda>c. description c = d') (criteria_of self m))"
        using None by (simp add: find_app Criterion_init_def split: option.split)
      with None True show ?thesis
        by (auto simp add: view_def view_add_def criteria_of_add_criterion Criterion_init_def)
    next
      case (Some c)
      with True show ?thesis
        by (auto simp add: view_def view_add_def criteria_of_add_criterion
            find_mutate_first_same find_mutate_first_other)
    qed
  qed
qed

lemma fold_load_row:
  "fold (load_row m) rows (self, out) =
     (fold (add_row m) (filter (\<lambda>r. length r = 4) rows) self,
      out @ map SkippingMalformedRow (filter (\<lambda>r. length r \<noteq> 4) rows))"
  by (induction rows arbitrary: self out) (simp_all add: load_row_def add_row_def)





lemma unique_add_criterion:
  "unique_descriptions self m' \<Longrightarrow> unique_descriptions (add_criterion self m d l mo a) m'"
  by (auto simp add: unique_descriptions_def criteria_of_add_criterion map_description_mutate_first
      Criterion_init_def find_None_iff split: option.split)


lemma find_description_unique:
  "distinct (map description cs) \<Longrightarrow> c \<in> set cs \<Longrightarrow>
   find (\<lambda>x. description x = description c) cs = Some c"
  by (induction cs) (auto simp add: image_iff)

lemma image_view:
  assumes "unique_descriptions self m"
  shows "(\<lambda>c. (description c, g (level c), set (attributes c))) ` set (criteria_of self m) =
         {(d, x, A). view g self m d = Some (x, A)}"
proof (intro set_eqI iffI)
  fix t assume "t \<in> (\<lambda>c. (description c, g (level c), set (attributes c))) ` set (criteria_of self m)"
  then obtain c where c: "c \<in> set (criteria_of self m)"
    and t: "t = (description c, g (level c), set (attributes c))" by auto
  from assms c have "find (\<lambda>x. description x = description c) (criteria_of self m) = Some c"
    unfolding unique_descriptions_def by (rule find_description_unique)
  with t show "t \<in> {(d, x, A). view g self m d = Some (x, A)}"
    by (simp add: view_def)
next
  fix t assume "t \<in> {(d, x, A). view g self m d = Some (x, A)}"
  then obtain d x A where t: "t = (d, x, A)" and v: "view g self m d = Some (x, A)" by auto
  from v obtain c where f: "find (\<lambda>c. description c = d) (criteria_of self m) = Some c"
    and xa: "x = g (level c)" "A = set (attributes c)"
    by (auto simp add: view_def)
  from f have "c \<in> set (criteria_of self m)" "description c = d"
    by (auto simp add: find_Some_iff in_set_conv_nth)
  with t xa show "t \<in> (\<lambda>c. (description c, g (level c), set (attributes c))) ` set (criteria_of self m)"
    by auto
qed

lemma contents_view:
  "unique_descriptions self m \<Longrightarrow> contents self m = {(d, x, A). view id self m d = Some (x, A)}"
  unfolding contents_def using image_view [of self m id] by simp



text \<open>
  The list order stands for an iteration order that the program does not control. Under the
  invariant it does not matter: two stores with the same contents for a method, in whatever
  order, have the same contents after the same \<open>add_criterion\<close>.
\<close>

lemma view_of_contents:
  assumes "unique_descriptions s1 m" and "unique_descriptions s2 m"
    and "contents s1 m = contents s2 m"
  shows "view id s1 m = view id s2 m"
proof (rule ext)
  fix d
  from assms have eq: "{(d, x, A). view id s1 m d = Some (x, A)} = {(d, x, A). view id s2 m d = Some (x, A)}"
    by (simp add: contents_view)
  have "\<And>x A. view id s1 m d = Some (x, A) \<longleftrightarrow> view id s2 m d = Some (x, A)"
    using eq by blast
  then show "view id s1 m d = view id s2 m d"
    by (cases "view id s1 m d"; cases "view id s2 m d") auto
qed

lemma add_criterion_iteration_order:
  assumes "unique_descriptions s1 m" and "unique_descriptions s2 m"
    and "contents s1 m = contents s2 m"
  shows "contents (add_criterion s1 m d l mo a) m = contents (add_criterion s2 m d l mo a) m"
proof -
  have "view id s1 m = view id s2 m" using assms by (rule view_of_contents)
  then have "view id (add_criterion s1 m d l mo a) m = view id (add_criterion s2 m d l mo a) m"
    by (simp add: view_add_criterion view_add_def)
  then show ?thesis
    by (simp add: contents_view unique_add_criterion assms(1,2))
qed


section \<open>Loading a file\<close>

lemma load_from_csv_file:
  "fs file_path = Some (RegularFile (header # rows)) \<Longrightarrow>
   load_from_csv fs self file_path =
     Inr (fold (add_row (method_of_path file_path)) (filter (\<lambda>r. length r = 4) rows) self,
          map SkippingMalformedRow (filter (\<lambda>r. length r \<noteq> 4) rows))"
  by (simp add: load_from_csv_def method_of_path_def fold_load_row)

lemma method_of_path_example: "method_of_path ''csv/Experiments.csv'' = ''Experiments''"
  by (simp add: method_of_path_def os_path_splitext_def os_path_basename_def rfind_def Let_def)

lemmas eval_add =
  add_row_def add_criterion_def defaultdict_getitem_def CriteriaStore_init_def
  Criterion_init_def add_attribute_def

lemma holds_attribute_view:
  "holds_attribute self m d mo a \<longleftrightarrow> (\<exists>x A. view g self m d = Some (x, A) \<and> (mo, a) \<in> A)"
  by (auto simp add: holds_attribute_def view_def split: option.splits)

lemma holds_attribute_added: "holds_attribute (add_criterion self m d l mo a) m d mo a"
  unfolding holds_attribute_view [where g = id] view_add_criterion
  by (auto simp add: view_add_def split: option.splits)

lemma holds_attribute_kept:
  "holds_attribute self m d mo a \<Longrightarrow> holds_attribute (add_criterion self m' d' l' mo' a') m d mo a"
  unfolding holds_attribute_view [where g = id] view_add_criterion
  by (auto simp add: view_add_def split: option.splits)

lemma holds_attribute_fold:
  "holds_attribute self m d mo a \<Longrightarrow> holds_attribute (fold (add_row m') rows self) m d mo a"
  by (induction rows arbitrary: self) (simp_all add: add_row_def holds_attribute_kept)

lemma holds_attribute_loaded:
  "r \<in> set rows \<Longrightarrow> holds_attribute (fold (add_row m) rows self) m (r ! 0) (r ! 2) (r ! 3)"
proof (induction rows arbitrary: self)
  case Nil
  then show ?case by simp
next
  case (Cons x rows)
  show ?case
  proof (cases "r = x")
    case True
    have "holds_attribute (add_row m x self) m (x ! 0) (x ! 2) (x ! 3)"
      by (simp add: add_row_def holds_attribute_added)
    then show ?thesis using True by (simp add: holds_attribute_fold)
  next
    case False
    with Cons.prems have "r \<in> set rows" by simp
    then show ?thesis by (simp add: Cons.IH)
  qed
qed

text \<open>
  C5. When the file has its header row, \<open>load_from_csv\<close> returns normally: exactly the
  rows whose number of fields is not 4 are reported and skipped, the store is the result of
  \<open>add_criterion\<close> on the remaining rows in their order, whether they stand before or after a
  skipped row, and the pair of every such row is then held under its description.
\<close>

theorem malformed_rows_skipped:
  assumes "fs file_path = Some (RegularFile (header # rows))"
  shows "\<exists>self'.
           load_from_csv fs self file_path =
             Inr (self', map SkippingMalformedRow (filter (\<lambda>r. length r \<noteq> 4) rows)) \<and>
           self' = fold (add_row (method_of_path file_path)) (filter (\<lambda>r. length r = 4) rows) self \<and>
           (\<forall>r \<in> set rows. length r = 4 \<longrightarrow>
              holds_attribute self' (method_of_path file_path) (r ! 0) (r ! 2) (r ! 3))"
  unfolding load_from_csv_file [of fs file_path header rows, OF assms]
  by (simp add: holds_attribute_loaded)

theorem malformed_rows_skipped_witness:
  "load_from_csv example_fs CriteriaStore_init ''csv/Experiments.csv'' =
     Inr (example_store,
          [SkippingMalformedRow [''Randomization'', ''Low'', ''Could Have''],
           SkippingMalformedRow [''Sample'', ''Low'', ''Should Have'', ''sample size justified'', ''extra'']])"
  using malformed_rows_skipped [of example_fs "''csv/Experiments.csv''"
      "[''description'', ''level'', ''moscow'', ''attribute'']" example_rows CriteriaStore_init]
  by (simp add: example_fs_def example_rows_def example_store_def method_of_path_example eval_add)


section \<open>Loading twice\<close>

lemma mutate_first_same:
  "find P xs = Some c \<Longrightarrow> f c = c \<Longrightarrow> mutate_first P f xs = xs"
  by (induction xs) (auto split: if_splits)

lemma add_attribute_member:
  "(mo, a) \<in> set (attributes c) \<Longrightarrow> add_attribute c mo a = c"
  by (simp add: add_attribute_def)

lemma add_criterion_held:
  assumes "holds_attribute self m d mo a"
  shows "add_criterion self m d l mo a = self"
proof -
  from assms obtain c where c: "find (\<lambda>c. description c = d) (criteria_of self m) = Some c"
    and mem: "(mo, a) \<in> set (attributes c)"
    by (auto simp add: holds_attribute_def split: option.splits)
  from c have "criteria_of self m \<noteq> []" by auto
  then obtain cs where cs: "self m = Some cs"
    by (cases "self m") (auto simp add: criteria_of_None)
  then have eq: "criteria_of self m = cs" by (rule criteria_of_Some)
  have "mutate_first (\<lambda>c. description c = d) (\<lambda>c. add_attribute c mo a) cs = cs"
    using c mem unfolding eq by (intro mutate_first_same [where c = c] add_attribute_member)
  with cs c eq show ?thesis
    by (simp add: add_criterion_def defaultdict_getitem_def map_upd_triv)
qed

lemma fold_add_row_held:
  "(\<And>r. r \<in> set rows \<Longrightarrow> holds_attribute self m (r ! 0) (r ! 2) (r ! 3)) \<Longrightarrow>
   fold (add_row m) rows self = self"
  by (induction rows) (simp_all add: add_row_def add_criterion_held)

lemma fold_add_row_twice:
  "fold (add_row m) rows (fold (add_row m) rows self) = fold (add_row m) rows self"
  by (rule fold_add_row_held) (rule holds_attribute_loaded)

text \<open>
  C9. A second \<open>load_from_csv\<close> of the same file, on the store the first one returned, returns
  that very store again: each row finds its description and its pair already present, so
  nothing is replaced and nothing is added.
\<close>

theorem load_twice:
  assumes "load_from_csv fs self file_path = Inr (self1, out1)"
  shows "load_from_csv fs self1 file_path = Inr (self1, out1)"
proof -
  from assms obtain header rows where f: "fs file_path = Some (RegularFile (header # rows))"
    by (auto simp add: load_from_csv_def split: option.splits fs_node.splits list.splits)
  note loaded = load_from_csv_file [of fs file_path header rows, OF f]
  from assms have s1: "self1 = fold (add_row (method_of_path file_path)) (filter (\<lambda>r. length r = 4) rows) self"
    and o1: "out1 = map SkippingMalformedRow (filter (\<lambda>r. length r \<noteq> 4) rows)"
    unfolding loaded by simp_all
  show ?thesis
    unfolding loaded s1 o1 by (simp add: fold_add_row_twice)
qed

theorem load_twice_witness:
  "load_from_csv example_fs CriteriaStore_init ''csv/Experiments.csv'' =
     Inr (example_store,
          [SkippingMalformedRow [''Randomization'', ''Low'', ''Could Have''],
           SkippingMalformedRow [''Sample'', ''Low'', ''Should Have'', ''sample size justified'', ''extra'']]) \<and>
   load_from_csv example_fs example_store ''csv/Experiments.csv'' =
     Inr (example_store,
          [SkippingMalformedRow [''Randomization'', ''Low'', ''Could Have''],
           SkippingMalformedRow [''Sample'', ''Low'', ''Should Have'', ''sample size justified'', ''extra'']])"
proof -
  have first: "load_from_csv example_fs CriteriaStore_init ''csv/Experiments.csv'' =
     Inr (example_store,
          [SkippingMalformedRow [''Randomization'', ''Low'', ''Could Have''],
           SkippingMalformedRow [''Sample'', ''Low'', ''Should Have'', ''sample size justified'', ''extra'']])"
    by (simp add: load_from_csv_file [of _ _ "[''description'', ''level'', ''moscow'', ''attribute'']" example_rows]
        example_fs_def example_rows_def example_store_def method_of_path_example eval_add)
  from first load_twice [OF first] show ?thesis by (rule conjI)
qed


section \<open>Rows with the same description\<close>

lemma add_criterion_existing:
  assumes "find (\<lambda>c. description c = d) (criteria_of self m) = Some c"
  shows "add_criterion self m d l mo a =
     self(m \<mapsto> mutate_first (\<lambda>c. description c = d) (\<lambda>c. add_attribute c mo a) (criteria_of self m))"
proof -
  from assms have "criteria_of self m \<noteq> []" by auto
  then obtain cs where cs: "self m = Some cs"
    by (cases "self m") (auto simp add: criteria_of_None)
  then have eq: "criteria_of self m = cs" by (rule criteria_of_Some)
  from cs assms show ?thesis
    unfolding eq by (simp add: add_criterion_def defaultdict_getitem_def)
qed

lemma mutate_first_append_new:
  "\<forall>x \<in> set xs. \<not> P x \<Longrightarrow> P y \<Longrightarrow> mutate_first P f (xs @ [y]) = xs @ [f y]"
  by (induction xs) auto

lemma criteria_of_two_rows:
  assumes "\<forall>c \<in> set (criteria_of self m). description c \<noteq> d"
  shows "criteria_of (add_criterion (add_criterion self m d l1 mo1 a1) m d l2 mo2 a2) m =
     criteria_of self m @
       [\<lparr>description = d, level = l1, attributes = List.insert (mo2, a2) [(mo1, a1)]\<rparr>]"
proof -
  let ?P = "\<lambda>c. description c = d"
  let ?n = "add_attribute (Criterion_init d l1) mo1 a1"
  from assms have none: "find ?P (criteria_of self m) = None"
    by (simp add: find_None_iff)
  then have first: "criteria_of (add_criterion self m d l1 mo1 a1) m = criteria_of self m @ [?n]"
    by (simp add: criteria_of_add_criterion)
  have found: "find ?P (criteria_of self m @ [?n]) = Some ?n"
    using none by (simp add: find_app Criterion_init_def)
  have mutated: "mutate_first ?P (\<lambda>c. add_attribute c mo2 a2) (criteria_of self m @ [?n]) =
      criteria_of self m @ [add_attribute ?n mo2 a2]"
    using assms by (intro mutate_first_append_new) (simp_all add: Criterion_init_def)
  have "criteria_of (add_criterion (add_criterion self m d l1 mo1 a1) m d l2 mo2 a2) m =
      mutate_first ?P (\<lambda>c. add_attribute c mo2 a2) (criteria_of self m @ [?n])"
    unfolding criteria_of_add_criterion [of "add_criterion self m d l1 mo1 a1"] first found by simp
  also note mutated
  also have "add_attribute ?n mo2 a2 =
      \<lparr>description = d, level = l1, attributes = List.insert (mo2, a2) [(mo1, a1)]\<rparr>"
    by (simp add: add_attribute_def Criterion_init_def)
  finally show ?thesis .
qed

text \<open>
  C1. Loading two rows with the same description, under a method that does not have the
  description yet, leaves exactly one criterion with that description; it has the level of
  the first row and both pairs as its attributes (two of them when the pairs differ). And
  whenever the description exists already, the level passed to \<open>add_criterion\<close> has no
  influence on the result.
\<close>

theorem same_description_merged:
  "(fs file_path = Some (RegularFile [header, [d, l1, mo1, a1], [d, l2, mo2, a2]]) \<and>
    (\<forall>c \<in> set (criteria_of self (method_of_path file_path)). description c \<noteq> d) \<longrightarrow>
      (\<exists>self' c.
         load_from_csv fs self file_path = Inr (self', []) \<and>
         filter (\<lambda>c. description c = d) (criteria_of self' (method_of_path file_path)) = [c] \<and>
         level c = l1 \<and>
         set (attributes c) = {(mo1, a1), (mo2, a2)} \<and>
         ((mo1, a1) \<noteq> (mo2, a2) \<longrightarrow> length (attributes c) = 2))) \<and>
   ((\<exists>c \<in> set (criteria_of store m). description c = d') \<longrightarrow>
      add_criterion store m d' l mo a = add_criterion store m d' l' mo a)"
proof (intro conjI impI)
  assume h: "fs file_path = Some (RegularFile [header, [d, l1, mo1, a1], [d, l2, mo2, a2]]) \<and>
    (\<forall>c \<in> set (criteria_of self (method_of_path file_path)). description c \<noteq> d)"
  let ?m = "method_of_path file_path"
  let ?s = "add_criterion (add_criterion self ?m d l1 mo1 a1) ?m d l2 mo2 a2"
  let ?c = "\<lparr>description = d, level = l1, attributes = List.insert (mo2, a2) [(mo1, a1)]\<rparr>"
  from h have "load_from_csv fs self file_path = Inr (?s, [])"
    by (simp add: load_from_csv_file [of fs file_path header] add_row_def)
  moreover from h have "filter (\<lambda>c. description c = d) (criteria_of ?s ?m) = [?c]"
    by (simp add: criteria_of_two_rows)
  moreover have "level ?c = l1" by simp
  moreover have "set (attributes ?c) = {(mo1, a1), (mo2, a2)}" by auto
  moreover have "(mo1, a1) \<noteq> (mo2, a2) \<longrightarrow> length (attributes ?c) = 2" by auto
  ultimately show "\<exists>self' c.
         load_from_csv fs self file_path = Inr (self', []) \<and>
         filter (\<lambda>c. description c = d) (criteria_of self' (method_of_path file_path)) = [c] \<and>
         level c = l1 \<and>
         set (attributes c) = {(mo1, a1), (mo2, a2)} \<and>
         ((mo1, a1) \<noteq> (mo2, a2) \<longrightarrow> length (attributes c) = 2)"
    by blast
next
  assume "\<exists>c \<in> set (criteria_of store m). description c = d'"
  then obtain c where "find (\<lambda>c. description c = d') (criteria_of store m) = Some c"
    by (cases "find (\<lambda>c. description c = d') (criteria_of store m)") (auto simp add: find_None_iff)
  then show "add_criterion store m d' l mo a = add_criterion store m d' l' mo a"
    by (simp add: add_criterion_existing)
qed

theorem same_description_merged_witness:
  "(\<exists>self' c.
      load_from_csv (order_fs order_rows) CriteriaStore_init ''csv/Experiments.csv'' = Inr (self', []) \<and>
      filter (\<lambda>c. description c = ''Randomization'') (criteria_of self' ''Experiments'') = [c] \<and>
      level c = ''High'' \<and>
      set (attributes c) =
        {(''Must Have'', ''random assignment used''), (''Could Have'', ''blinding applied'')} \<and>
      length (attributes c) = 2) \<and>
   add_criterion example_store ''Experiments'' ''Randomization'' ''Low'' ''Won't Have'' ''placebo'' =
   add_criterion example_store ''Experiments'' ''Randomization'' ''Critical'' ''Won't Have'' ''placebo''"
proof -
  note merged = same_description_merged [where fs = "order_fs order_rows"
      and file_path = "''csv/Experiments.csv''"
      and header = "[''description'', ''level'', ''moscow'', ''attribute'']"
      and d = "''Randomization''" and ?l1.0 = "''High''" and ?mo1.0 = "''Must Have''"
      and ?a1.0 = "''random assignment used''" and ?l2.0 = "''Low''" and ?mo2.0 = "''Could Have''"
      and ?a2.0 = "''blinding applied''" and self = CriteriaStore_init
      and store = example_store and m = "''Experiments''" and d' = "''Randomization''"
      and l = "''Low''" and l' = "''Critical''" and mo = "''Won't Have''" and a = "''placebo''"]
  have fresh: "order_fs order_rows ''csv/Experiments.csv'' =
      Some (RegularFile [[''description'', ''level'', ''moscow'', ''attribute''],
        [''Randomization'', ''High'', ''Must Have'', ''random assignment used''],
        [''Randomization'', ''Low'', ''Could Have'', ''blinding applied'']]) \<and>
      (\<forall>c \<in> set (criteria_of CriteriaStore_init (method_of_path ''csv/Experiments.csv'')).
         description c \<noteq> ''Randomization'')"
    by (simp add: order_fs_def order_rows_def criteria_of_def dict_get_def CriteriaStore_init_def)
  have present: "\<exists>c \<in> set (criteria_of example_store ''Experiments''). description c = ''Randomization''"
    by (simp add: example_store_def criteria_of_def dict_get_def)
  from merged [THEN conjunct1, THEN mp, OF fresh] merged [THEN conjunct2, THEN mp, OF present]
  show ?thesis by (simp add: method_of_path_example)
qed


section \<open>The order of the rows\<close>









section \<open>The priority of an attribute\<close>







lemma comprehension_filter:
  "[attr. (lvl, attr) \<leftarrow> xs, P lvl] = map snd (filter (\<lambda>(lvl, attr). P lvl) xs)"
  by (induction xs) auto



section \<open>Looking for the criteria file\<close>







section \<open>The prompt for a criterion\<close>

lemma str_join_lines:
  "xs \<noteq> [] \<Longrightarrow> str_join sep (map f xs) @ sep = concat (map (\<lambda>a. f a @ sep) xs)"
proof (induction xs)
  case Nil
  then show ?case by simp
next
  case (Cons x xs)
  then show ?case by (cases xs) simp_all
qed

lemma mset_filter_both:
  "mset (map f (filter P xs)) + mset (map f (filter (\<lambda>x. \<not> P x) xs)) = mset (map f xs)"
  by (induction xs) simp_all

lemma partition_texts:
  "mset (must_have c) + mset (other_criteria c) = mset (map snd (attributes c))"
proof -
  have e: "(\<lambda>(lvl, attr). str_lower lvl \<noteq> ''must have'') =
      (\<lambda>x. \<not> (case x of (lvl, attr) \<Rightarrow> str_lower lvl = ''must have''))"
    by (simp add: fun_eq_iff)
  show ?thesis
    unfolding must_have_def other_criteria_def comprehension_filter e
    by (rule mset_filter_both)
qed

lemma prompt_found:
  assumes "find (\<lambda>c. description c = d) (criteria_of self m) = Some c"
  shows "fst (generate_prompt_for_criterion self m d) =
     ''Please check if the article meets the following criterion:\<newline>'' @ d @ ''\<newline>\<newline>'' @
     ''It must at least meet the following Must Have criteria:\<newline>'' @
     must_have_block c @ other_criteria_block c @
     ''\<newline>\<newline>Please return only the following: Yes or No, depending on the outcome.''"
  unfolding generate_prompt_for_criterion_def dict_get_criteria_of
  using assms
  by (simp add: Let_def must_have_block_def other_criteria_block_def
      str_join_lines [where sep = "''\<newline>''", simplified])

lemmas eval_lower = str_lower_def char_lower_def ascii_uppercase_def ascii_lowercase_def

text \<open>
  C2 as stated fails in its last clause: an attribute text stored once under a Must-Have
  priority and once under another priority is listed in both groups of the prompt.
\<close>

theorem shared_text_in_both_groups:
  "load_from_csv (order_fs shared_text_rows) CriteriaStore_init ''csv/Experiments.csv'' =
     Inr ([''Experiments'' \<mapsto> [shared_text_criterion]], []) \<and>
   must_have shared_text_criterion = [''uses randomization''] \<and>
   other_criteria shared_text_criterion = [''uses randomization''] \<and>
   fst (generate_prompt_for_criterion [''Experiments'' \<mapsto> [shared_text_criterion]]
          ''Experiments'' ''Randomization'') =
     ''Please check if the article meets the following criterion:\<newline>Randomization\<newline>\<newline>It must at least meet the following Must Have criteria:\<newline>- uses randomization\<newline>\<newline>If one of these is missing, it can be replaced by at least two of the following:\<newline>- uses randomization\<newline>\<newline>Please return only the following: Yes or No, depending on the outcome.''"
proof (intro conjI)
  show "load_from_csv (order_fs shared_text_rows) CriteriaStore_init ''csv/Experiments.csv'' =
     Inr ([''Experiments'' \<mapsto> [shared_text_criterion]], [])"
    by (simp add: load_from_csv_file [of _ _ "[''description'', ''level'', ''moscow'', ''attribute'']" shared_text_rows]
        order_fs_def shared_text_rows_def shared_text_criterion_def method_of_path_example eval_add)
  show m: "must_have shared_text_criterion = [''uses randomization'']"
    by (simp add: must_have_def shared_text_criterion_def eval_lower)
  show o: "other_criteria shared_text_criterion = [''uses randomization'']"
    by (simp add: other_criteria_def shared_text_criterion_def eval_lower)
  have "find (\<lambda>c. description c = ''Randomization'')
      (criteria_of [''Experiments'' \<mapsto> [shared_text_criterion]] ''Experiments'') = Some shared_text_criterion"
    by (simp add: criteria_of_def dict_get_def shared_text_criterion_def)
  then show "fst (generate_prompt_for_criterion [''Experiments'' \<mapsto> [shared_text_criterion]]
          ''Experiments'' ''Randomization'') =
     ''Please check if the article meets the following criterion:\<newline>Randomization\<newline>\<newline>It must at least meet the following Must Have criteria:\<newline>- uses randomization\<newline>\<newline>If one of these is missing, it can be replaced by at least two of the following:\<newline>- uses randomization\<newline>\<newline>Please return only the following: Yes or No, depending on the outcome.''"
    by (simp add: prompt_found must_have_block_def other_criteria_block_def m o)
qed

text \<open>
  C2, amended. For the criterion found under the method, the prompt states the description,
  then lists one line for each Must-Have attribute (or the placeholder line when there is
  none), then, exactly when there is an attribute of another priority, the paragraph on
  replacing a missing one by at least two of the listed others, and ends with the instruction
  to return only Yes or No. Every attribute, as a pair of priority and text, gives its text
  to exactly one of the two groups.
\<close>

theorem prompt_structure:
  assumes "find (\<lambda>c. description c = d) (criteria_of self m) = Some c"
  shows "fst (generate_prompt_for_criterion self m d) =
           ''Please check if the article meets the following criterion:\<newline>'' @ d @ ''\<newline>\<newline>'' @
           ''It must at least meet the following Must Have criteria:\<newline>'' @
           must_have_block c @ other_criteria_block c @
           ''\<newline>\<newline>Please return only the following: Yes or No, depending on the outcome.'' \<and>
         suffix ''Please return only the following: Yes or No, depending on the outcome.''
           (fst (generate_prompt_for_criterion self m d)) \<and>
         (other_criteria_block c = [] \<longleftrightarrow> other_criteria c = []) \<and>
         must_have c = map snd (filter (\<lambda>(lvl, attr). str_lower lvl = ''must have'') (attributes c)) \<and>
         other_criteria c =
           map snd (filter (\<lambda>(lvl, attr). str_lower lvl \<noteq> ''must have'') (attributes c)) \<and>
         mset (must_have c) + mset (other_criteria c) = mset (map snd (attributes c))"
proof (intro conjI)
  show p: "fst (generate_prompt_for_criterion self m d) =
           ''Please check if the article meets the following criterion:\<newline>'' @ d @ ''\<newline>\<newline>'' @
           ''It must at least meet the following Must Have criteria:\<newline>'' @
           must_have_block c @ other_criteria_block c @
           ''\<newline>\<newline>Please return only the following: Yes or No, depending on the outcome.''"
    using assms by (rule prompt_found)
  have "suffix ''Please return only the following: Yes or No, depending on the outcome.''
      ((''Please check if the article meets the following criterion:\<newline>'' @ d @ ''\<newline>\<newline>'' @
       ''It must at least meet the following Must Have criteria:\<newline>'' @
       must_have_block c @ other_criteria_block c @ ''\<newline>\<newline>'') @
       ''Please return only the following: Yes or No, depending on the outcome.'')"
    by (rule suffixI) (rule refl)
  then show "suffix ''Please return only the following: Yes or No, depending on the outcome.''
           (fst (generate_prompt_for_criterion self m d))"
    unfolding p by simp
  show "other_criteria_block c = [] \<longleftrightarrow> other_criteria c = []"
    by (simp add: other_criteria_block_def)
  show "must_have c = map snd (filter (\<lambda>(lvl, attr). str_lower lvl = ''must have'') (attributes c))"
    unfolding must_have_def by (rule comprehension_filter)
  show "other_criteria c =
           map snd (filter (\<lambda>(lvl, attr). str_lower lvl \<noteq> ''must have'') (attributes c))"
    unfolding other_criteria_def by (rule comprehension_filter)
  show "mset (must_have c) + mset (other_criteria c) = mset (map snd (attributes c))"
    by (rule partition_texts)
qed

theorem prompt_structure_witness:
  "fst (generate_prompt_for_criterion prompt_store ''Experiments'' ''Randomization'') =
     ''Please check if the article meets the following criterion:\<newline>Randomization\<newline>\<newline>It must at least meet the following Must Have criteria:\<newline>- A uses randomization\<newline>\<newline>If one of these is missing, it can be replaced by at least two of the following:\<newline>- B has control group\<newline>- C reports effect size\<newline>\<newline>Please return only the following: Yes or No, depending on the outcome.'' \<and>
   fst (generate_prompt_for_criterion prompt_store ''Experiments'' ''Sample'') =
     ''Please check if the article meets the following criterion:\<newline>Sample\<newline>\<newline>It must at least meet the following Must Have criteria:\<newline>- No explicitly defined 'Must Have' criteria.\<newline>\<newline>\<newline>Please return only the following: Yes or No, depending on the outcome.''"
proof -
  let ?r = "\<lparr>description = ''Randomization'', level = ''High'',
           attributes = [(''Should Have'', ''B has control group''),
                         (''MUST HAVE'', ''A uses randomization''),
                         (''Could Have'', ''C reports effect size'')]\<rparr>"
  let ?s = "\<lparr>description = ''Sample'', level = ''Low'', attributes = []\<rparr>"
  have fr: "find (\<lambda>c. description c = ''Randomization'') (criteria_of prompt_store ''Experiments'') = Some ?r"
    and fs: "find (\<lambda>c. description c = ''Sample'') (criteria_of prompt_store ''Experiments'') = Some ?s"
    by (simp_all add: criteria_of_def dict_get_def prompt_store_def)
  have mr: "must_have ?r = [''A uses randomization'']"
    and orr: "other_criteria ?r = [''B has control group'', ''C reports effect size'']"
    and ms: "must_have ?s = []" and os: "other_criteria ?s = []"
    by (simp_all add: must_have_def other_criteria_def eval_lower)
  from prompt_structure [OF fr, THEN conjunct1] prompt_structure [OF fs, THEN conjunct1]
  show ?thesis
    by (simp add: must_have_block_def other_criteria_block_def mr orr ms os)
qed

end
